theory Spec2Isabelle
  imports Complex_Main "HOL-Library.Word"
begin

unbundle bit_operations_syntax

section \<open>Floating-point values\<close>

text \<open>
  The tree-construction code of \<^verbatim>\<open>src/tree/param.h\<close> computes with C++ \<^verbatim>\<open>double\<close> and
  \<^verbatim>\<open>float\<close> (\<^verbatim>\<open>bst_float\<close>). Its text depends on the special values of IEEE 754: it
  negates a comparison instead of reversing it (\<^verbatim>\<open>!(a > b)\<close>), it returns minus infinity,
  it initialises bounds with the largest finite double, and it checks a result with
  \<^verbatim>\<open>std::isnan\<close>. A value is therefore modelled as not-a-number, one of the two
  infinities, or a finite real number.

  Arithmetic on finite values is exact: rounding, overflow to infinity and the sign of
  zero are not modelled (a division of a non-zero finite value by zero gives the infinity
  of the dividend's sign). No property below depends on them: every comparison of the source is exact in
  IEEE 754 as well, and wherever two expressions are shown equal they are built from the same
  operations. The conversion of a \<^verbatim>\<open>float\<close> parameter to \<^verbatim>\<open>double\<close> is exact, so both
  C++ types share the one type below. The conversion of a \<^verbatim>\<open>double\<close> to \<^verbatim>\<open>float\<close> is
  an operation of its own, \<open>to_float\<close> below: it rounds and it overflows.
\<close>

datatype double = NaN | NegInf | Finite real | PosInf

type_synonym bst_float = double

fun isnan :: "double \<Rightarrow> bool" where
  "isnan NaN = True"
| "isnan NegInf = False"
| "isnan (Finite x) = False"
| "isnan PosInf = False"

text \<open>Unary minus and \<^verbatim>\<open>std::abs\<close>.\<close>

fun fneg :: "double \<Rightarrow> double" where
  "fneg NaN = NaN"
| "fneg NegInf = PosInf"
| "fneg (Finite x) = Finite (- x)"
| "fneg PosInf = NegInf"

fun fabs :: "double \<Rightarrow> double" where
  "fabs NaN = NaN"
| "fabs NegInf = PosInf"
| "fabs (Finite x) = Finite \<bar>x\<bar>"
| "fabs PosInf = PosInf"

text \<open>Addition: not-a-number is absorbing, and the sum of opposite infinities is not a number.\<close>

fun fadd :: "double \<Rightarrow> double \<Rightarrow> double" where
  "fadd NaN b = NaN"
| "fadd NegInf NaN = NaN"
| "fadd NegInf NegInf = NegInf"
| "fadd NegInf (Finite y) = NegInf"
| "fadd NegInf PosInf = NaN"
| "fadd (Finite x) NaN = NaN"
| "fadd (Finite x) NegInf = NegInf"
| "fadd (Finite x) (Finite y) = Finite (x + y)"
| "fadd (Finite x) PosInf = PosInf"
| "fadd PosInf NaN = NaN"
| "fadd PosInf NegInf = NaN"
| "fadd PosInf (Finite y) = PosInf"
| "fadd PosInf PosInf = PosInf"

definition fsub :: "double \<Rightarrow> double \<Rightarrow> double" where
  "fsub a b = fadd a (fneg b)"

text \<open>Multiplication: zero times an infinity is not a number.\<close>

fun fmul :: "double \<Rightarrow> double \<Rightarrow> double" where
  "fmul NaN b = NaN"
| "fmul NegInf NaN = NaN"
| "fmul NegInf NegInf = PosInf"
| "fmul NegInf (Finite y) = (if y = 0 then NaN else if 0 < y then NegInf else PosInf)"
| "fmul NegInf PosInf = NegInf"
| "fmul (Finite x) NaN = NaN"
| "fmul (Finite x) NegInf = (if x = 0 then NaN else if 0 < x then NegInf else PosInf)"
| "fmul (Finite x) (Finite y) = Finite (x * y)"
| "fmul (Finite x) PosInf = (if x = 0 then NaN else if 0 < x then PosInf else NegInf)"
| "fmul PosInf NaN = NaN"
| "fmul PosInf NegInf = NegInf"
| "fmul PosInf (Finite y) = (if y = 0 then NaN else if 0 < y then PosInf else NegInf)"
| "fmul PosInf PosInf = PosInf"

text \<open>
  Division. A finite non-zero value divided by zero is an infinity, zero divided by zero
  and an infinity divided by an infinity are not numbers: C++ does not trap, the quotient
  is simply no longer a finite number.
\<close>

fun fdiv :: "double \<Rightarrow> double \<Rightarrow> double" where
  "fdiv NaN b = NaN"
| "fdiv NegInf NaN = NaN"
| "fdiv NegInf NegInf = NaN"
| "fdiv NegInf (Finite y) = (if 0 \<le> y then NegInf else PosInf)"
| "fdiv NegInf PosInf = NaN"
| "fdiv (Finite x) NaN = NaN"
| "fdiv (Finite x) NegInf = Finite 0"
| "fdiv (Finite x) (Finite y) =
     (if y = 0 then (if x = 0 then NaN else if 0 < x then PosInf else NegInf)
      else Finite (x / y))"
| "fdiv (Finite x) PosInf = Finite 0"
| "fdiv PosInf NaN = NaN"
| "fdiv PosInf NegInf = NaN"
| "fdiv PosInf (Finite y) = (if 0 \<le> y then PosInf else NegInf)"
| "fdiv PosInf PosInf = NaN"

text \<open>
  The comparisons \<^verbatim>\<open><\<close>, \<^verbatim>\<open>>\<close>, \<^verbatim>\<open><=\<close>, \<^verbatim>\<open>>=\<close> and \<^verbatim>\<open>==\<close> are false as soon as one
  operand is not a number; \<^verbatim>\<open>!=\<close> is the negation of \<^verbatim>\<open>==\<close>.
\<close>

fun flt :: "double \<Rightarrow> double \<Rightarrow> bool" where
  "flt NaN b = False"
| "flt NegInf NaN = False"
| "flt NegInf NegInf = False"
| "flt NegInf (Finite y) = True"
| "flt NegInf PosInf = True"
| "flt (Finite x) NaN = False"
| "flt (Finite x) NegInf = False"
| "flt (Finite x) (Finite y) = (x < y)"
| "flt (Finite x) PosInf = True"
| "flt PosInf b = False"

definition fgt :: "double \<Rightarrow> double \<Rightarrow> bool" where
  "fgt a b = flt b a"

definition feq :: "double \<Rightarrow> double \<Rightarrow> bool" where
  "feq a b = (\<not> isnan a \<and> \<not> isnan b \<and> a = b)"

definition fne :: "double \<Rightarrow> double \<Rightarrow> bool" where
  "fne a b = (\<not> feq a b)"

definition fle :: "double \<Rightarrow> double \<Rightarrow> bool" where
  "fle a b = (flt a b \<or> feq a b)"

definition fge :: "double \<Rightarrow> double \<Rightarrow> bool" where
  "fge a b = fle b a"

text \<open>\<^verbatim>\<open>std::numeric_limits<double>::max()\<close>, the largest finite binary64 value.\<close>

definition DBL_MAX :: real where
  "DBL_MAX = (2 - 1 / 2 ^ 52) * 2 ^ 1023"

subsection \<open>Narrowing a double to a float\<close>

text \<open>
  Returning a \<^verbatim>\<open>double\<close> from a function declared \<^verbatim>\<open>float\<close> converts it to binary32:
  the nearest value with a significand of 24 bits and an exponent from -126 to 127, a tie
  going to the even significand, and an infinity when the rounded magnitude reaches
  \<open>2^128\<close>. Below \<open>2^-126\<close> the spacing stays \<open>2^-149\<close> (subnormal numbers). Infinities and
  not-a-number stay as they are.
\<close>

definition round_half_even :: "real \<Rightarrow> int" where
  "round_half_even q =
     (let f = \<lfloor>q\<rfloor>; d = q - of_int f
      in if d < 1 / 2 then f
         else if 1 / 2 < d then f + 1
         else if even f then f else f + 1)"

text \<open>The exponent of a magnitude: the greatest \<open>e\<close> from -125 to 127 with \<open>2^e \<le> a\<close>, and
  -126 when there is none.\<close>

primrec float_exp_search :: "real \<Rightarrow> nat \<Rightarrow> int" where
  "float_exp_search a 0 = - 126"
| "float_exp_search a (Suc n) =
     (if 2 powi (int n - 125) \<le> a then int n - 125 else float_exp_search a n)"

definition float_exponent :: "real \<Rightarrow> int" where
  "float_exponent a = float_exp_search a 253"

definition to_float :: "double \<Rightarrow> double" where
  "to_float d =
     (case d of
        Finite x \<Rightarrow>
          (let a = \<bar>x\<bar>;
               u = 2 powi (float_exponent a - 23);
               r = of_int (round_half_even (a / u)) * u
           in if 2 ^ 128 \<le> r then (if 0 < x then PosInf else NegInf)
              else Finite (if x < 0 then - r else r))
      | _ \<Rightarrow> d)"

section \<open>Gradient statistics and the best-split record\<close>

text \<open>\<^verbatim>\<open>struct GradStats\<close>: the summed gradient and the summed hessian of a node.\<close>

record GradStats =
  sum_grad :: double
  sum_hess :: double

text \<open>The default constructor \<^verbatim>\<open>GradStats() : sum_grad{0}, sum_hess{0}\<close>.\<close>

definition GradStats_init :: GradStats where
  "GradStats_init = \<lparr>sum_grad = Finite 0, sum_hess = Finite 0\<rparr>"

text \<open>
  \<^verbatim>\<open>struct SplitEntry\<close>. The field \<^verbatim>\<open>sindex\<close> is an \<^verbatim>\<open>unsigned\<close>, a 32-bit word
  that packs the feature index with the default direction.
\<close>

record SplitEntry =
  loss_chg :: bst_float
  sindex :: "32 word"
  split_value :: bst_float
  left_sum :: GradStats
  right_sum :: GradStats

text \<open>The defaulted constructor with the member initialisers of the struct.\<close>

definition SplitEntry_init :: SplitEntry where
  "SplitEntry_init =
     \<lparr>loss_chg = Finite 0, sindex = 0, split_value = Finite 0,
      left_sum = GradStats_init, right_sum = GradStats_init\<rparr>"

text \<open>\<^verbatim>\<open>SplitIndex()\<close> is \<^verbatim>\<open>sindex & ((1U << 31) - 1U)\<close>, \<^verbatim>\<open>DefaultLeft()\<close> is
  \<^verbatim>\<open>(sindex >> 31) != 0\<close>.\<close>

definition SplitIndex :: "SplitEntry \<Rightarrow> 32 word" where
  "SplitIndex e = sindex e AND (push_bit 31 1 - 1)"

definition DefaultLeft :: "SplitEntry \<Rightarrow> bool" where
  "DefaultLeft e = (drop_bit 31 (sindex e) \<noteq> 0)"

text \<open>\<^verbatim>\<open>NeedReplace(new_loss_chg, split_index)\<close>, with its two branches as in the source.\<close>

definition NeedReplace :: "SplitEntry \<Rightarrow> bst_float \<Rightarrow> 32 word \<Rightarrow> bool" where
  "NeedReplace e new_loss_chg split_index =
     (if SplitIndex e \<le> split_index then fgt new_loss_chg (loss_chg e)
      else \<not> fgt (loss_chg e) new_loss_chg)"

text \<open>
  \<^verbatim>\<open>Update(const SplitEntry &e)\<close> mutates the record and returns whether it did: the model
  returns the record afterwards with the flag.
\<close>

definition Update :: "SplitEntry \<Rightarrow> SplitEntry \<Rightarrow> SplitEntry \<times> bool" where
  "Update this e =
     (if NeedReplace this (loss_chg e) (SplitIndex e)
      then (this\<lparr>loss_chg := loss_chg e, sindex := sindex e, split_value := split_value e,
                  left_sum := left_sum e, right_sum := right_sum e\<rparr>, True)
      else (this, False))"

text \<open>The overload of \<^verbatim>\<open>Update\<close> that takes the raw fields and packs \<^verbatim>\<open>default_left\<close>.\<close>

definition Update_fields ::
  "SplitEntry \<Rightarrow> bst_float \<Rightarrow> 32 word \<Rightarrow> bst_float \<Rightarrow> bool \<Rightarrow> GradStats \<Rightarrow> GradStats
     \<Rightarrow> SplitEntry \<times> bool" where
  "Update_fields this new_loss_chg split_index new_split_value default_left lsum rsum =
     (if NeedReplace this new_loss_chg split_index
      then (this\<lparr>loss_chg := new_loss_chg,
                  sindex := (if default_left then split_index OR push_bit 31 1 else split_index),
                  split_value := new_split_value,
                  left_sum := lsum, right_sum := rsum\<rparr>, True)
      else (this, False))"

text \<open>\<^verbatim>\<open>Reduce(dst, src)\<close> is \<^verbatim>\<open>dst.Update(src)\<close> with the flag dropped.\<close>

definition Reduce :: "SplitEntry \<Rightarrow> SplitEntry \<Rightarrow> SplitEntry" where
  "Reduce dst src = fst (Update dst src)"

section \<open>Training parameters and the weight and gain calculator\<close>

text \<open>
  \<^verbatim>\<open>struct TrainParam\<close>, restricted to the fields that the functions below read. The
  declared lower bound of each of the four regularisation parameters is 0, inclusive, and
  the bound is enforced by the parameter parser, not by the functions below: they accept
  every value.
\<close>

record TrainParam =
  min_child_weight :: double
  reg_lambda :: double
  reg_alpha :: double
  max_delta_step :: double
  monotone_constraints :: "int list"

definition ThresholdL1 :: "double \<Rightarrow> double \<Rightarrow> double" where
  "ThresholdL1 w alpha =
     (if fgt w alpha then fsub w alpha
      else if flt w (fneg alpha) then fadd w alpha
      else Finite 0)"

definition Sqr :: "double \<Rightarrow> double" where
  "Sqr a = fmul a a"

definition CalcGainGivenWeight :: "TrainParam \<Rightarrow> double \<Rightarrow> double \<Rightarrow> double \<Rightarrow> double" where
  "CalcGainGivenWeight p grad hess w =
     fneg (fadd (fmul (fmul (Finite 2) grad) w)
                (fmul (fadd hess (reg_lambda p)) (Sqr w)))"

text \<open>
  \<^verbatim>\<open>CalcWeight(p, sum_grad, sum_hess)\<close>. The two assignments that clip \<^verbatim>\<open>dw\<close> run one
  after the other, the upper bound first.
\<close>

definition CalcWeight :: "TrainParam \<Rightarrow> double \<Rightarrow> double \<Rightarrow> double" where
  "CalcWeight p grad hess =
     (if flt hess (min_child_weight p) \<or> fle hess (Finite 0) then Finite 0
      else
        let dw = (if feq (reg_alpha p) (Finite 0)
                  then fdiv (fneg grad) (fadd hess (reg_lambda p))
                  else fdiv (fneg (ThresholdL1 grad (reg_alpha p)))
                            (fadd hess (reg_lambda p)))
        in if fne (max_delta_step p) (Finite 0)
           then (let dw1 = (if fgt dw (max_delta_step p) then max_delta_step p else dw)
                 in if flt dw1 (fneg (max_delta_step p)) then fneg (max_delta_step p) else dw1)
           else dw)"

text \<open>\<^verbatim>\<open>CalcGain(p, sum_grad, sum_hess)\<close>.\<close>

definition CalcGain :: "TrainParam \<Rightarrow> double \<Rightarrow> double \<Rightarrow> double" where
  "CalcGain p grad hess =
     (if flt hess (min_child_weight p) then Finite 0
      else if feq (max_delta_step p) (Finite 0)
      then (if feq (reg_alpha p) (Finite 0)
            then fdiv (Sqr grad) (fadd hess (reg_lambda p))
            else fdiv (Sqr (ThresholdL1 grad (reg_alpha p)))
                      (fadd hess (reg_lambda p)))
      else
        let w = CalcWeight p grad hess;
            ret = CalcGainGivenWeight p grad hess w
        in if feq (reg_alpha p) (Finite 0) then ret
           else fadd ret (fmul (reg_alpha p) (fabs w)))"

text \<open>
  The overload \<^verbatim>\<open>CalcWeight(p, stats)\<close> on a pair of statistics. It calls the function
  above on the two \<^verbatim>\<open>double\<close> sums and is declared to return \<^verbatim>\<open>float\<close>: the weight is
  narrowed on return.
\<close>

definition CalcWeight_stats :: "TrainParam \<Rightarrow> GradStats \<Rightarrow> double" where
  "CalcWeight_stats p stats = to_float (CalcWeight p (sum_grad stats) (sum_hess stats))"

section \<open>The monotonic value constraint\<close>

record ValueConstraint =
  lower_bound :: double
  upper_bound :: double

text \<open>The constructor: \<^verbatim>\<open>lower_bound(-std::numeric_limits<double>::max())\<close> and
  \<^verbatim>\<open>upper_bound(std::numeric_limits<double>::max())\<close>.\<close>

definition ValueConstraint_init :: ValueConstraint where
  "ValueConstraint_init = \<lparr>lower_bound = Finite (- DBL_MAX), upper_bound = Finite DBL_MAX\<rparr>"

text \<open>\<^verbatim>\<open>ValueConstraint::CalcWeight\<close>: the weight of the two-argument overload, moved to a
  bound that it passes.\<close>

definition ValueConstraint_CalcWeight :: "ValueConstraint \<Rightarrow> TrainParam \<Rightarrow> GradStats \<Rightarrow> double" where
  "ValueConstraint_CalcWeight this param stats =
     (let w = CalcWeight_stats param stats
      in if flt w (lower_bound this) then lower_bound this
         else if fgt w (upper_bound this) then upper_bound this
         else w)"

definition ValueConstraint_CalcGain :: "ValueConstraint \<Rightarrow> TrainParam \<Rightarrow> GradStats \<Rightarrow> double" where
  "ValueConstraint_CalcGain this param stats =
     CalcGainGivenWeight param (sum_grad stats) (sum_hess stats)
       (ValueConstraint_CalcWeight this param stats)"


text \<open>\<^verbatim>\<open>SetChild\<close> can fail in two places: in the lookup of the direction and in a check.\<close>

datatype error = out_of_range | check_failed

text \<open>
  \<^verbatim>\<open>std::vector::at\<close> returns the element when the index is below the size of the vector
  and throws \<^verbatim>\<open>std::out_of_range\<close> otherwise. The index is a \<^verbatim>\<open>bst_uint\<close>, a 32-bit
  unsigned integer.
\<close>

definition vector_at :: "'a list \<Rightarrow> 32 word \<Rightarrow> error + 'a" where
  "vector_at v i = (if unat i < length v then Inr (v ! unat i) else Inl out_of_range)"

text \<open>
  Modelled from the spec: the macro \<^verbatim>\<open>CHECK\<close> comes from the logging header of dmlc-core,
  which is not part of the source file. The specification calls a midpoint that is not a
  number a fatal violation of an invariant that aborts instead of passing on corrupted
  bounds: a check of a false condition ends the function with \<open>check_failed\<close>.
\<close>

definition CHECK :: "bool \<Rightarrow> error + unit" where
  "CHECK cond = (if cond then Inr () else Inl check_failed)"

text \<open>
  The two children are written through the pointers \<^verbatim>\<open>cleft\<close> and \<^verbatim>\<open>cright\<close>, taken
  here to point to two objects other than \<^verbatim>\<open>this\<close>. The model takes what the two objects
  hold before the call and returns how the call ends together with what they hold then:
  a failure leaves them as the statements before it have written them. The calls of
  \<^verbatim>\<open>CalcWeight\<close> inside the struct are calls of the member function.
\<close>

definition SetChild ::
  "ValueConstraint \<Rightarrow> TrainParam \<Rightarrow> 32 word \<Rightarrow> GradStats \<Rightarrow> GradStats
     \<Rightarrow> ValueConstraint \<Rightarrow> ValueConstraint
     \<Rightarrow> (error + unit) \<times> ValueConstraint \<times> ValueConstraint" where
  "SetChild this param split_index left right cleft cright =
     (case vector_at (monotone_constraints param) split_index of
        Inl e \<Rightarrow> (Inl e, cleft, cright)
      | Inr c \<Rightarrow>
          let cleft1 = this;
              cright1 = this
          in if c = 0 then (Inr (), cleft1, cright1)
             else
               let wleft = ValueConstraint_CalcWeight this param left;
                   wright = ValueConstraint_CalcWeight this param right;
                   mid = fdiv (fadd wleft wright) (Finite 2)
               in case CHECK (\<not> isnan mid) of
                    Inl e \<Rightarrow> (Inl e, cleft1, cright1)
                  | Inr u \<Rightarrow>
                      if c < 0
                      then (Inr (), cleft1\<lparr>lower_bound := mid\<rparr>, cright1\<lparr>upper_bound := mid\<rparr>)
                      else (Inr (), cleft1\<lparr>upper_bound := mid\<rparr>, cright1\<lparr>lower_bound := mid\<rparr>))"

section \<open>Merging best-split records\<close>

text \<open>
  The records of several workers are merged with \<^verbatim>\<open>Reduce\<close>. Two merge orders over a
  sequence of records are compared below: the fold from the left, and the balanced binary
  tree that halves the sequence, reduces each half and merges the two results. Neither is a
  function of the source file; they are the two orders that the specification names.
  A sequence with no record gives the default-constructed record.
\<close>

fun fold_reduce :: "SplitEntry list \<Rightarrow> SplitEntry" where
  "fold_reduce [] = SplitEntry_init"
| "fold_reduce (e # es) = foldl Reduce e es"

function tree_reduce :: "SplitEntry list \<Rightarrow> SplitEntry" where
  "tree_reduce [] = SplitEntry_init"
| "tree_reduce [e] = e"
| "tree_reduce (a # b # es) =
     Reduce (tree_reduce (take (length (a # b # es) div 2) (a # b # es)))
            (tree_reduce (drop (length (a # b # es) div 2) (a # b # es)))"
  by pat_completeness auto
termination
  by (relation "measure length") auto

text \<open>
  Any other shape of the merge is a binary tree with the records at its leaves: a leaf
  is its record, and a node merges the result of its right subtree into the result of its
  left subtree.
\<close>

datatype rtree = Leaf SplitEntry | Node rtree rtree

fun leaves :: "rtree \<Rightarrow> SplitEntry list" where
  "leaves (Leaf e) = [e]"
| "leaves (Node l r) = leaves l @ leaves r"

fun reduce_tree :: "rtree \<Rightarrow> SplitEntry" where
  "reduce_tree (Leaf e) = e"
| "reduce_tree (Node l r) = Reduce (reduce_tree l) (reduce_tree r)"

section \<open>Clipping into an interval\<close>

text \<open>
  The specification says that \<^verbatim>\<open>CalcWeight\<close> clips the step into the interval from
  \<^verbatim>\<open>-max_delta_step\<close> to \<^verbatim>\<open>max_delta_step\<close>. Clipping is written here with \<^verbatim>\<open>std::min\<close>
  and \<^verbatim>\<open>std::max\<close>, whose results are their first argument unless the comparison decides
  for the second: the minimum of the value and the upper end, then the maximum of that
  and the lower end.
\<close>

definition fmin :: "double \<Rightarrow> double \<Rightarrow> double" where
  "fmin a b = (if flt b a then b else a)"

definition fmax :: "double \<Rightarrow> double \<Rightarrow> double" where
  "fmax a b = (if flt a b then b else a)"

definition clip_into :: "double \<Rightarrow> double \<Rightarrow> double \<Rightarrow> double" where
  "clip_into lo hi x = fmax (fmin x hi) lo"

section \<open>Example inputs\<close>

text \<open>A best-split record with the given loss change and packed index, and empty statistics.\<close>

definition entry :: "bst_float \<Rightarrow> 32 word \<Rightarrow> SplitEntry" where
  "entry g s =
     \<lparr>loss_chg = g, sindex = s, split_value = Finite 0,
      left_sum = GradStats_init, right_sum = GradStats_init\<rparr>"

text \<open>
  The declared defaults of the parameters (\<^verbatim>\<open>min_child_weight\<close> 1, \<^verbatim>\<open>reg_lambda\<close> 1,
  \<^verbatim>\<open>reg_alpha\<close> 0, \<^verbatim>\<open>max_delta_step\<close> 0, no monotone constraint), the same with a
  constraint on three features, and the parameters at the lower bound 0 of their declared
  ranges.
\<close>

definition params_default :: TrainParam where
  "params_default =
     \<lparr>min_child_weight = Finite 1, reg_lambda = Finite 1, reg_alpha = Finite 0,
      max_delta_step = Finite 0, monotone_constraints = []\<rparr>"

definition params_monotone :: TrainParam where
  "params_monotone = params_default\<lparr>monotone_constraints := [1, 0, - 1]\<rparr>"

definition params_zero :: TrainParam where
  "params_zero =
     \<lparr>min_child_weight = Finite 0, reg_lambda = Finite 0, reg_alpha = Finite 0,
      max_delta_step = Finite 0, monotone_constraints = []\<rparr>"


definition stale :: ValueConstraint where
  "stale = \<lparr>lower_bound = Finite 7, upper_bound = Finite 8\<rparr>"

text \<open>The constructor \<^verbatim>\<open>GradStats(grad, hess)\<close>.\<close>

definition stats :: "double \<Rightarrow> double \<Rightarrow> GradStats" where
  "stats g h = \<lparr>sum_grad = g, sum_hess = h\<rparr>"







section \<open>Order of floating-point values\<close>

lemma flt_irrefl [simp]: "\<not> flt a a"
  by (cases a) auto

lemma flt_NaN_right [simp]: "\<not> flt a NaN"
  by (cases a) auto

lemma flt_asym: "flt a b \<Longrightarrow> \<not> flt b a"
  by (cases a; cases b) auto

lemma flt_trans: "flt a b \<Longrightarrow> flt b c \<Longrightarrow> flt a c"
  by (cases a; cases b; cases c) auto

lemma flt_total: "\<not> isnan a \<Longrightarrow> \<not> isnan b \<Longrightarrow> flt a b \<or> a = b \<or> flt b a"
  by (cases a; cases b) auto

section \<open>The best-split record\<close>

lemma Update_fst: "fst (Update r e) = (if NeedReplace r (loss_chg e) (SplitIndex e) then e else r)"
  by (simp add: Update_def)

lemma Reduce_eq: "Reduce r e = (if NeedReplace r (loss_chg e) (SplitIndex e) then e else r)"
  by (simp add: Reduce_def Update_fst)

lemma Update_tie:
  assumes "loss_chg a = loss_chg b" "SplitIndex a < SplitIndex b"
  shows "fst (Update (fst (Update r a)) b) = fst (Update (fst (Update r b)) a)"
    and "fst (Update (fst (Update r a)) b) =
           (if NeedReplace r (loss_chg a) (SplitIndex a) then a else r)"
  using assms by (auto simp: Update_fst NeedReplace_def fgt_def dest: flt_asym)

text \<open>
  C1. \<^verbatim>\<open>NeedReplace(g, i)\<close> holds exactly when the record's feature index is at most \<open>i\<close>
  and \<open>g\<close> is strictly greater than its \<^verbatim>\<open>loss_chg\<close>, or the record's feature index is
  greater than \<open>i\<close> and its \<^verbatim>\<open>loss_chg\<close> is not strictly greater than \<open>g\<close>. When two
  candidates \<open>a\<close> and \<open>b\<close> with the same \<^verbatim>\<open>loss_chg\<close> and different feature indices, \<open>a\<close>
  with the smaller one, are given to a record \<open>r\<close> with \<^verbatim>\<open>Update\<close>, the two orders end
  in the same record: it is \<open>a\<close> when \<^verbatim>\<open>NeedReplace\<close> accepts \<open>a\<close> on \<open>r\<close>, which it does
  whenever the candidates' \<^verbatim>\<open>loss_chg\<close> is strictly greater than that of \<open>r\<close>, and it is
  \<open>r\<close> itself otherwise. The candidate \<open>b\<close> with the larger index never stays.
\<close>

theorem NeedReplace_tie_break:
  "(NeedReplace r g i \<longleftrightarrow>
      (SplitIndex r \<le> i \<and> fgt g (loss_chg r)) \<or> (i < SplitIndex r \<and> \<not> fgt (loss_chg r) g))
   \<and> (loss_chg a = loss_chg b \<and> SplitIndex a < SplitIndex b \<longrightarrow>
        fst (Update (fst (Update r a)) b) = fst (Update (fst (Update r b)) a)
      \<and> fst (Update (fst (Update r a)) b) =
          (if NeedReplace r (loss_chg a) (SplitIndex a) then a else r)
      \<and> (fgt (loss_chg a) (loss_chg r) \<longrightarrow>
          SplitIndex (fst (Update (fst (Update r a)) b)) = SplitIndex a))"
proof (intro conjI impI)
  show "NeedReplace r g i \<longleftrightarrow>
      (SplitIndex r \<le> i \<and> fgt g (loss_chg r)) \<or> (i < SplitIndex r \<and> \<not> fgt (loss_chg r) g)"
    by (auto simp: NeedReplace_def)
next
  assume h: "loss_chg a = loss_chg b \<and> SplitIndex a < SplitIndex b"
  then show "fst (Update (fst (Update r a)) b) = fst (Update (fst (Update r b)) a)"
    using Update_tie(1) by blast
  from h show e: "fst (Update (fst (Update r a)) b) =
      (if NeedReplace r (loss_chg a) (SplitIndex a) then a else r)"
    using Update_tie(2) by blast
  assume "fgt (loss_chg a) (loss_chg r)"
  then have "NeedReplace r (loss_chg a) (SplitIndex a)"
    by (auto simp: NeedReplace_def fgt_def dest: flt_asym)
  with e show "SplitIndex (fst (Update (fst (Update r a)) b)) = SplitIndex a"
    by simp
qed

theorem NeedReplace_tie_break_witness:
  "NeedReplace (entry (Finite 0) 7) (Finite 1) 1
   \<and> loss_chg (entry (Finite 1) 1) = loss_chg (entry (Finite 1) 2)
   \<and> SplitIndex (entry (Finite 1) 1) < SplitIndex (entry (Finite 1) 2)
   \<and> fgt (loss_chg (entry (Finite 1) 1)) (loss_chg (entry (Finite 0) 7))
   \<and> fst (Update (fst (Update (entry (Finite 0) 7) (entry (Finite 1) 1))) (entry (Finite 1) 2))
       = entry (Finite 1) 1
   \<and> fst (Update (fst (Update (entry (Finite 0) 7) (entry (Finite 1) 2))) (entry (Finite 1) 1))
       = entry (Finite 1) 1
   \<and> SplitIndex
        (fst (Update (fst (Update (entry (Finite 0) 7) (entry (Finite 1) 1))) (entry (Finite 1) 2)))
       = 1"
proof -
  let ?r = "entry (Finite 0) 7" and ?a = "entry (Finite 1) 1" and ?b = "entry (Finite 1) 2"
  note t = NeedReplace_tie_break [of ?r "Finite 1" 1 ?a ?b]
  have h: "loss_chg ?a = loss_chg ?b \<and> SplitIndex ?a < SplitIndex ?b"
    by (simp add: entry_def SplitIndex_def)
  have g: "fgt (loss_chg ?a) (loss_chg ?r)"
    by (simp add: entry_def fgt_def)
  have i: "SplitIndex ?a = 1"
    by (simp add: entry_def SplitIndex_def)
  have "i < SplitIndex ?r \<and> \<not> fgt (loss_chg ?r) (Finite 1)" if "i = 1" for i :: "32 word"
    using that by (simp add: entry_def SplitIndex_def fgt_def)
  then have n: "NeedReplace ?r (Finite 1) 1"
    using t by blast
  have l: "loss_chg ?a = Finite 1"
    by (simp add: entry_def)
  from t h have o: "fst (Update (fst (Update ?r ?a)) ?b) = fst (Update (fst (Update ?r ?b)) ?a)"
    and e: "fst (Update (fst (Update ?r ?a)) ?b)
        = (if NeedReplace ?r (loss_chg ?a) (SplitIndex ?a) then ?a else ?r)"
    and x: "SplitIndex (fst (Update (fst (Update ?r ?a)) ?b)) = SplitIndex ?a"
    using g by blast+
  from e n have e1: "fst (Update (fst (Update ?r ?a)) ?b) = ?a"
    by (simp add: i l)
  with o have e2: "fst (Update (fst (Update ?r ?b)) ?a) = ?a"
    by simp
  from x i have x1: "SplitIndex (fst (Update (fst (Update ?r ?a)) ?b)) = 1"
    by simp
  from n h g e1 e2 x1 show ?thesis
    by blast
qed

text \<open>
  The record that holds a better split than both candidates keeps its own feature index:
  with a record of \<^verbatim>\<open>loss_chg\<close> 10 on feature 5 and two candidates of \<^verbatim>\<open>loss_chg\<close> 1 on
  the features 1 and 2, both orders end on feature 5.
\<close>

theorem NeedReplace_tie_break_counterexample:
  "loss_chg (entry (Finite 1) 1) = loss_chg (entry (Finite 1) 2)
   \<and> SplitIndex (entry (Finite 1) 1) = 1
   \<and> SplitIndex (entry (Finite 1) 2) = 2
   \<and> SplitIndex
        (fst (Update (fst (Update (entry (Finite 10) 5) (entry (Finite 1) 1))) (entry (Finite 1) 2)))
       = 5
   \<and> SplitIndex
        (fst (Update (fst (Update (entry (Finite 10) 5) (entry (Finite 1) 2))) (entry (Finite 1) 1)))
       = 5"
  by (simp add: entry_def SplitIndex_def Update_def NeedReplace_def fgt_def)

subsection \<open>The packed index\<close>

lemma low_mask: "(push_bit 31 1 - 1 :: 32 word) = mask 31"
  by (simp add: mask_eq_decr_exp)

lemma take_bit_index:
  fixes i :: "32 word"
  assumes "i < 2 ^ 31"
  shows "take_bit 31 i = i"
  using less_mask_eq [OF assms] by (simp add: take_bit_eq_mask)

lemma drop_bit_index:
  fixes i :: "32 word"
  assumes "i < 2 ^ 31"
  shows "drop_bit 31 i = 0"
  using take_bit_index [OF assms] by (simp add: take_bit_eq_self_iff_drop_bit_eq_0)

lemma top_bit_index:
  fixes i :: "32 word"
  assumes "i < 2 ^ 31"
  shows "\<not> bit i 31"
  using drop_bit_index [OF assms] drop_bit_eq_zero_iff_not_bit_last [of i] by simp

lemma take_bit_packed:
  fixes i :: "32 word"
  assumes "i < 2 ^ 31"
  shows "take_bit 31 (if dl then i OR push_bit 31 1 else i) = i"
proof -
  have "take_bit 31 (i OR push_bit 31 1)
      = take_bit 31 i OR take_bit 31 (push_bit 31 (1 :: 32 word))"
    by (simp only: take_bit_or)
  also have "take_bit 31 (push_bit 31 (1 :: 32 word)) = 0"
    by simp
  finally have "take_bit 31 (i OR push_bit 31 1) = i"
    using take_bit_index [OF assms] by simp
  then show ?thesis
    using take_bit_index [OF assms] by simp
qed

lemma drop_bit_packed:
  fixes i :: "32 word"
  assumes "i < 2 ^ 31"
  shows "(drop_bit 31 (if dl then i OR push_bit 31 1 else i) \<noteq> 0) = dl"
proof -
  have "drop_bit 31 (i OR push_bit 31 1)
      = drop_bit 31 i OR drop_bit 31 (push_bit 31 (1 :: 32 word))"
    by (simp only: drop_bit_or)
  then have "drop_bit 31 (i OR push_bit 31 1) = 1"
    using drop_bit_index [OF assms] by simp
  then show ?thesis
    using drop_bit_index [OF assms] by (cases dl) simp_all
qed

lemma top_bit_packed:
  fixes i :: "32 word"
  assumes "i < 2 ^ 31"
  shows "bit (if dl then i OR push_bit 31 1 else i) 31 = dl"
  using top_bit_index [OF assms] by (cases dl) (simp_all add: bit_or_iff bit_push_bit_iff)

text \<open>
  C9. When the raw-field \<^verbatim>\<open>Update\<close> is called with a feature index below \<open>2^31\<close> and
  replaces the record, the record afterwards has \<^verbatim>\<open>SplitIndex()\<close> equal to that index
  and \<^verbatim>\<open>DefaultLeft()\<close> equal to the flag passed: bit 31 of \<^verbatim>\<open>sindex\<close> is the flag, and
  the bits 0 to 30 are the index.
\<close>

theorem Update_fields_packing:
  assumes "i < 2 ^ 31" and "snd (Update_fields r g i v dl ls rs)"
  shows "SplitIndex (fst (Update_fields r g i v dl ls rs)) = i
    \<and> DefaultLeft (fst (Update_fields r g i v dl ls rs)) = dl
    \<and> bit (sindex (fst (Update_fields r g i v dl ls rs))) 31 = dl
    \<and> take_bit 31 (sindex (fst (Update_fields r g i v dl ls rs))) = i"
proof -
  from assms(2) have "NeedReplace r g i"
    by (simp add: Update_fields_def split: if_splits)
  then have s: "sindex (fst (Update_fields r g i v dl ls rs))
      = (if dl then i OR push_bit 31 1 else i)"
    by (simp add: Update_fields_def)
  have t: "take_bit 31 (if dl then i OR push_bit 31 1 else i) = i"
    by (rule take_bit_packed [OF assms(1)])
  then have m: "(if dl then i OR push_bit 31 1 else i) AND (push_bit 31 1 - 1) = i"
    by (simp only: low_mask flip: take_bit_eq_mask)
  show ?thesis
    unfolding SplitIndex_def DefaultLeft_def s
    using m t drop_bit_packed [OF assms(1), of dl] top_bit_packed [OF assms(1), of dl]
    by (intro conjI)
qed

theorem Update_fields_packing_witness:
  "(5 :: 32 word) < 2 ^ 31
   \<and> snd (Update_fields SplitEntry_init (Finite 1) 5 (Finite 3) True GradStats_init GradStats_init)
   \<and> SplitIndex
        (fst (Update_fields SplitEntry_init (Finite 1) 5 (Finite 3) True GradStats_init GradStats_init))
       = 5
   \<and> DefaultLeft
        (fst (Update_fields SplitEntry_init (Finite 1) 5 (Finite 3) True GradStats_init GradStats_init))
   \<and> bit (sindex
        (fst (Update_fields SplitEntry_init (Finite 1) 5 (Finite 3) True GradStats_init GradStats_init)))
        31"
proof -
  have a: "(5 :: 32 word) < 2 ^ 31"
    by simp
  have b: "snd (Update_fields SplitEntry_init (Finite 1) 5 (Finite 3) True
      GradStats_init GradStats_init)"
    by (simp add: Update_fields_def NeedReplace_def SplitIndex_def SplitEntry_init_def fgt_def)
  show ?thesis
    using Update_fields_packing [OF a b] a b by simp
qed

subsection \<open>Merging in a fold and in a tree\<close>

text \<open>
  On records whose \<^verbatim>\<open>loss_chg\<close> is a number, \<^verbatim>\<open>NeedReplace\<close> is a strict lexicographic
  order: a greater \<^verbatim>\<open>loss_chg\<close> first, a smaller feature index second.
\<close>

lemma NeedReplace_order:
  assumes "\<not> isnan (loss_chg r)" "\<not> isnan g"
  shows "NeedReplace r g i = (flt (loss_chg r) g \<or> (loss_chg r = g \<and> i < SplitIndex r))"
  using flt_total [OF assms] flt_asym [of g "loss_chg r"] flt_asym [of "loss_chg r" g]
  by (auto simp: NeedReplace_def fgt_def)

lemma not_NeedReplace_order:
  assumes "\<not> isnan (loss_chg r)" "\<not> isnan g"
  shows "(\<not> NeedReplace r g i) = (flt g (loss_chg r) \<or> (loss_chg r = g \<and> SplitIndex r \<le> i))"
  using flt_total [OF assms] flt_asym [of g "loss_chg r"] flt_asym [of "loss_chg r" g]
  by (auto simp: NeedReplace_def fgt_def)

lemma lex_trans:
  fixes i j k :: "32 word"
  assumes "flt x y \<or> (x = y \<and> j < i)" "flt y z \<or> (y = z \<and> k < j)"
  shows "flt x z \<or> (x = z \<and> k < i)"
  using assms by (auto dest: flt_trans)

lemma lexeq_trans:
  fixes i j k :: "32 word"
  assumes "flt y x \<or> (x = y \<and> i \<le> j)" "flt z y \<or> (y = z \<and> j \<le> k)"
  shows "flt z x \<or> (x = z \<and> i \<le> k)"
  using assms by (auto dest: flt_trans)

lemma NeedReplace_trans:
  assumes "\<not> isnan (loss_chg a)" "\<not> isnan (loss_chg b)" "\<not> isnan (loss_chg c)"
    and "NeedReplace a (loss_chg b) (SplitIndex b)" "NeedReplace b (loss_chg c) (SplitIndex c)"
  shows "NeedReplace a (loss_chg c) (SplitIndex c)"
  using lex_trans [of "loss_chg a" "loss_chg b" "SplitIndex b" "SplitIndex a"
      "loss_chg c" "SplitIndex c"] assms(4,5)
  by (simp only: NeedReplace_order [OF assms(1,2)] NeedReplace_order [OF assms(2,3)]
      NeedReplace_order [OF assms(1,3)])

lemma NeedReplace_negtrans:
  assumes "\<not> isnan (loss_chg a)" "\<not> isnan (loss_chg b)" "\<not> isnan (loss_chg c)"
    and "\<not> NeedReplace a (loss_chg b) (SplitIndex b)"
      "\<not> NeedReplace b (loss_chg c) (SplitIndex c)"
  shows "\<not> NeedReplace a (loss_chg c) (SplitIndex c)"
  using lexeq_trans [of "loss_chg b" "loss_chg a" "SplitIndex a" "SplitIndex b"
      "loss_chg c" "SplitIndex c"] assms(4,5)
  by (simp only: not_NeedReplace_order [OF assms(1,2)] not_NeedReplace_order [OF assms(2,3)]
      not_NeedReplace_order [OF assms(1,3)])

lemma Reduce_isnan:
  "\<not> isnan (loss_chg a) \<Longrightarrow> \<not> isnan (loss_chg b) \<Longrightarrow> \<not> isnan (loss_chg (Reduce a b))"
  by (simp add: Reduce_eq)

text \<open>The merge is associative on such records: the four cases of the two inner decisions.\<close>

lemma Reduce_assoc:
  assumes "\<not> isnan (loss_chg a)" "\<not> isnan (loss_chg b)" "\<not> isnan (loss_chg c)"
  shows "Reduce (Reduce a b) c = Reduce a (Reduce b c)"
proof (cases "NeedReplace a (loss_chg b) (SplitIndex b)")
  case ab: True
  show ?thesis
  proof (cases "NeedReplace b (loss_chg c) (SplitIndex c)")
    case True
    with ab NeedReplace_trans [OF assms ab True] show ?thesis
      by (simp add: Reduce_eq)
  next
    case False
    with ab show ?thesis
      by (simp add: Reduce_eq)
  qed
next
  case ab: False
  show ?thesis
  proof (cases "NeedReplace b (loss_chg c) (SplitIndex c)")
    case True
    with ab show ?thesis
      by (simp add: Reduce_eq)
  next
    case False
    with ab NeedReplace_negtrans [OF assms ab False] show ?thesis
      by (simp add: Reduce_eq)
  qed
qed

lemma foldl_Reduce_isnan:
  "\<not> isnan (loss_chg a) \<Longrightarrow> \<forall>e\<in>set es. \<not> isnan (loss_chg e)
     \<Longrightarrow> \<not> isnan (loss_chg (foldl Reduce a es))"
  by (induction es arbitrary: a) (simp_all add: Reduce_isnan)

lemma foldl_Reduce_Cons:
  assumes "\<not> isnan (loss_chg a)" "\<not> isnan (loss_chg b)" "\<forall>e\<in>set es. \<not> isnan (loss_chg e)"
  shows "foldl Reduce (Reduce a b) es = Reduce a (foldl Reduce b es)"
  using assms
proof (induction es arbitrary: a b)
  case Nil
  then show ?case by simp
next
  case (Cons c es)
  have nc: "\<not> isnan (loss_chg c)" and nes: "\<forall>e\<in>set es. \<not> isnan (loss_chg e)"
    using Cons.prems(3) by simp_all
  have "foldl Reduce (Reduce a b) (c # es) = foldl Reduce (Reduce (Reduce a b) c) es"
    by simp
  also have "\<dots> = Reduce (Reduce a b) (foldl Reduce c es)"
    using Cons.IH [of "Reduce a b" c] Reduce_isnan [OF Cons.prems(1,2)] nc nes by simp
  also have "\<dots> = Reduce a (Reduce b (foldl Reduce c es))"
    using Reduce_assoc [OF Cons.prems(1,2) foldl_Reduce_isnan [OF nc nes]] .
  also have "Reduce b (foldl Reduce c es) = foldl Reduce (Reduce b c) es"
    using Cons.IH [of b c] Cons.prems(2) nc nes by simp
  finally show ?case by simp
qed

lemma fold_reduce_append:
  assumes "xs \<noteq> []" "ys \<noteq> []" "\<forall>e\<in>set (xs @ ys). \<not> isnan (loss_chg e)"
  shows "fold_reduce (xs @ ys) = Reduce (fold_reduce xs) (fold_reduce ys)"
proof -
  obtain a as where xs: "xs = a # as"
    using assms(1) by (cases xs) auto
  obtain b bs where ys: "ys = b # bs"
    using assms(2) by (cases ys) auto
  have "fold_reduce (xs @ ys) = foldl Reduce (Reduce (foldl Reduce a as) b) bs"
    by (simp add: xs ys)
  also have "\<dots> = Reduce (foldl Reduce a as) (foldl Reduce b bs)"
    using assms(3) by (intro foldl_Reduce_Cons foldl_Reduce_isnan) (simp_all add: xs ys)
  finally show ?thesis
    by (simp add: xs ys)
qed

lemma tree_reduce_eq_fold:
  "\<forall>e\<in>set es. \<not> isnan (loss_chg e) \<Longrightarrow> tree_reduce es = fold_reduce es"
proof (induction es rule: tree_reduce.induct)
  case 1
  then show ?case by simp
next
  case (2 e)
  then show ?case by simp
next
  case (3 a b es)
  let ?xs = "a # b # es"
  let ?k = "length ?xs div 2"
  have l: "take ?k ?xs \<noteq> []" and r: "drop ?k ?xs \<noteq> []"
    by simp_all
  have nl: "\<forall>e\<in>set (take ?k ?xs). \<not> isnan (loss_chg e)"
    using "3.prems" set_take_subset [of ?k ?xs] by blast
  have nr: "\<forall>e\<in>set (drop ?k ?xs). \<not> isnan (loss_chg e)"
    using "3.prems" set_drop_subset [of ?k ?xs] by blast
  have "tree_reduce ?xs = Reduce (fold_reduce (take ?k ?xs)) (fold_reduce (drop ?k ?xs))"
    using "3.IH"(1) [OF nl] "3.IH"(2) [OF nr] by (simp only: tree_reduce.simps)
  also have "\<dots> = fold_reduce (take ?k ?xs @ drop ?k ?xs)"
    using fold_reduce_append [OF l r] "3.prems" by (simp only: append_take_drop_id)
  finally show ?case
    by (simp only: append_take_drop_id)
qed

lemma leaves_nonempty: "leaves t \<noteq> []"
  by (induction t) simp_all

lemma reduce_tree_eq_fold:
  "\<forall>e\<in>set (leaves t). \<not> isnan (loss_chg e) \<Longrightarrow> reduce_tree t = fold_reduce (leaves t)"
proof (induction t)
  case (Leaf e)
  then show ?case by simp
next
  case (Node l r)
  have "reduce_tree (Node l r) = Reduce (fold_reduce (leaves l)) (fold_reduce (leaves r))"
    using Node by simp
  also have "\<dots> = fold_reduce (leaves l @ leaves r)"
    using fold_reduce_append [OF leaves_nonempty leaves_nonempty, of l r] Node.prems by simp
  finally show ?case by simp
qed

text \<open>
  C2. For every sequence of at least three best-split records none of which has a
  not-a-number \<^verbatim>\<open>loss_chg\<close>, merging the records with \<^verbatim>\<open>Reduce\<close> in a fold from the left
  gives the same record, equal in every field, as merging them along the balanced binary
  tree, and as merging them along any binary tree whose leaves are, from left to right, the
  sequence.
\<close>

theorem Reduce_fold_eq_tree:
  assumes "3 \<le> length es" and "\<forall>e\<in>set es. \<not> isnan (loss_chg e)"
  shows "fold_reduce es = tree_reduce es
    \<and> (leaves t = es \<longrightarrow> fold_reduce es = reduce_tree t)"
  using tree_reduce_eq_fold [OF assms(2)] reduce_tree_eq_fold [of t] assms(2) by auto

theorem Reduce_fold_eq_tree_witness:
  "3 \<le> length [entry (Finite 1) 3, entry (Finite 2) 7, entry (Finite 2) 4, entry (Finite 0) 1]
   \<and> fold_reduce [entry (Finite 1) 3, entry (Finite 2) 7, entry (Finite 2) 4, entry (Finite 0) 1]
       = entry (Finite 2) 4
   \<and> tree_reduce [entry (Finite 1) 3, entry (Finite 2) 7, entry (Finite 2) 4, entry (Finite 0) 1]
       = entry (Finite 2) 4
   \<and> reduce_tree (Node (Leaf (entry (Finite 1) 3))
        (Node (Node (Leaf (entry (Finite 2) 7)) (Leaf (entry (Finite 2) 4)))
              (Leaf (entry (Finite 0) 1))))
       = entry (Finite 2) 4"
proof -
  let ?es = "[entry (Finite 1) 3, entry (Finite 2) 7, entry (Finite 2) 4, entry (Finite 0) 1]"
  let ?t = "Node (Leaf (entry (Finite 1) 3))
        (Node (Node (Leaf (entry (Finite 2) 7)) (Leaf (entry (Finite 2) 4)))
              (Leaf (entry (Finite 0) 1)))"
  have n: "3 \<le> length ?es"
    by simp
  have m: "\<forall>e\<in>set ?es. \<not> isnan (loss_chg e)"
    by (simp add: entry_def)
  have l: "leaves ?t = ?es"
    by simp
  have f: "fold_reduce ?es = entry (Finite 2) 4"
    by (simp add: Reduce_eq NeedReplace_def fgt_def SplitIndex_def entry_def)
  note t = Reduce_fold_eq_tree [OF n m, of ?t]
  from t have e1: "fold_reduce ?es = tree_reduce ?es"
    by (rule conjunct1)
  from t l have e2: "fold_reduce ?es = reduce_tree ?t"
    by blast
  note r1 = trans [OF e1 [symmetric] f] and r2 = trans [OF e2 [symmetric] f]
  from n f r1 r2 show ?thesis
    by blast
qed

text \<open>
  A record whose \<^verbatim>\<open>loss_chg\<close> is not a number breaks the equality, for three records and
  for four: \<^verbatim>\<open>NeedReplace\<close> lets a candidate on a smaller feature replace it and lets no
  candidate on a greater feature do so, so the result depends on which record meets it.
\<close>

theorem Reduce_fold_eq_tree_counterexample:
  "3 \<le> length [entry NaN 5, entry (Finite 1) 3, entry (Finite 2) 7]
   \<and> fold_reduce [entry NaN 5, entry (Finite 1) 3, entry (Finite 2) 7] = entry (Finite 2) 7
   \<and> tree_reduce [entry NaN 5, entry (Finite 1) 3, entry (Finite 2) 7] = entry NaN 5
   \<and> fold_reduce [entry NaN 5, entry NaN 5, entry (Finite 1) 3, entry (Finite 2) 7]
       = entry (Finite 2) 7
   \<and> tree_reduce [entry NaN 5, entry NaN 5, entry (Finite 1) 3, entry (Finite 2) 7]
       = entry NaN 5
   \<and> entry (Finite 2) 7 \<noteq> entry NaN 5"
  by (simp add: Reduce_eq NeedReplace_def fgt_def SplitIndex_def entry_def)

section \<open>The weight and gain calculator\<close>

lemma feq_zero [simp]: "feq a (Finite 0) = (a = Finite 0)"
  by (cases a) (auto simp: feq_def)

text \<open>With threshold 0 the function \<^verbatim>\<open>ThresholdL1\<close> returns its argument, unless the
  argument is not a number: then both comparisons fail and the result is 0.\<close>

lemma ThresholdL1_zero: "\<not> isnan v \<Longrightarrow> ThresholdL1 v (Finite 0) = v"
  by (cases v) (auto simp: ThresholdL1_def fgt_def fsub_def)

text \<open>Clipping into an interval with ordered ends gives a value of the interval, and leaves
  a value of the interval as it is.\<close>

lemma clip_into_interval:
  assumes "fle lo hi" "\<not> isnan x"
  shows "fle lo (clip_into lo hi x)" "fle (clip_into lo hi x) hi"
    "fle lo x \<Longrightarrow> fle x hi \<Longrightarrow> clip_into lo hi x = x"
  using assms
  by (cases lo; cases hi; cases x; auto simp: clip_into_def fmin_def fmax_def fle_def feq_def)+

text \<open>
  C4. \<^verbatim>\<open>CalcWeight\<close> returns 0 when \<^verbatim>\<open>sum_hess < min_child_weight\<close> or
  \<^verbatim>\<open>sum_hess <= 0\<close>. Otherwise it computes \<open>dw\<close> as minus the numerator over
  \<^verbatim>\<open>sum_hess + reg_lambda\<close>, where the numerator is \<^verbatim>\<open>sum_grad\<close> itself when
  \<^verbatim>\<open>reg_alpha\<close> is 0 and the soft threshold of \<^verbatim>\<open>sum_grad\<close> at \<^verbatim>\<open>reg_alpha\<close> otherwise;
  when \<^verbatim>\<open>max_delta_step\<close> is not 0, \<open>dw\<close> is clipped into the interval from
  \<^verbatim>\<open>-max_delta_step\<close> to \<^verbatim>\<open>max_delta_step\<close>; the result is returned. Whenever
  \<^verbatim>\<open>sum_grad\<close> is a number or \<^verbatim>\<open>reg_alpha\<close> is not 0, the numerator is the soft threshold
  of \<^verbatim>\<open>sum_grad\<close> at \<^verbatim>\<open>reg_alpha\<close>. The soft threshold of \<open>v\<close> at \<open>a\<close> is \<open>v - a\<close> if
  \<open>v > a\<close>, \<open>v + a\<close> if \<open>v < -a\<close>, and 0 otherwise.
\<close>

theorem CalcWeight_cases:
  "CalcWeight p grad hess =
     (if flt hess (min_child_weight p) \<or> fle hess (Finite 0) then Finite 0
      else
        let dw = fdiv (fneg (if feq (reg_alpha p) (Finite 0) then grad
                             else ThresholdL1 grad (reg_alpha p)))
                      (fadd hess (reg_lambda p))
        in if fne (max_delta_step p) (Finite 0)
           then clip_into (fneg (max_delta_step p)) (max_delta_step p) dw
           else dw)
   \<and> (\<not> isnan grad \<or> fne (reg_alpha p) (Finite 0) \<longrightarrow>
        CalcWeight p grad hess =
          (if flt hess (min_child_weight p) \<or> fle hess (Finite 0) then Finite 0
           else
             let dw = fdiv (fneg (ThresholdL1 grad (reg_alpha p))) (fadd hess (reg_lambda p))
             in if fne (max_delta_step p) (Finite 0)
                then clip_into (fneg (max_delta_step p)) (max_delta_step p) dw
                else dw))
   \<and> ThresholdL1 v a =
        (if fgt v a then fsub v a else if flt v (fneg a) then fadd v a else Finite 0)"
proof (intro conjI impI)
  show u: "CalcWeight p grad hess =
     (if flt hess (min_child_weight p) \<or> fle hess (Finite 0) then Finite 0
      else
        let dw = fdiv (fneg (if feq (reg_alpha p) (Finite 0) then grad
                             else ThresholdL1 grad (reg_alpha p)))
                      (fadd hess (reg_lambda p))
        in if fne (max_delta_step p) (Finite 0)
           then clip_into (fneg (max_delta_step p)) (max_delta_step p) dw
           else dw)"
    by (simp add: CalcWeight_def Let_def clip_into_def fmin_def fmax_def fgt_def)
  show "ThresholdL1 v a =
        (if fgt v a then fsub v a else if flt v (fneg a) then fadd v a else Finite 0)"
    by (simp add: ThresholdL1_def)
  assume "\<not> isnan grad \<or> fne (reg_alpha p) (Finite 0)"
  then have "(if feq (reg_alpha p) (Finite 0) then grad else ThresholdL1 grad (reg_alpha p))
      = ThresholdL1 grad (reg_alpha p)"
    using ThresholdL1_zero [of grad] by (auto simp: fne_def)
  with u show "CalcWeight p grad hess =
          (if flt hess (min_child_weight p) \<or> fle hess (Finite 0) then Finite 0
           else
             let dw = fdiv (fneg (ThresholdL1 grad (reg_alpha p))) (fadd hess (reg_lambda p))
             in if fne (max_delta_step p) (Finite 0)
                then clip_into (fneg (max_delta_step p)) (max_delta_step p) dw
                else dw)"
    by simp
qed

theorem CalcWeight_cases_witness:
  "\<not> isnan (Finite (- 10))
   \<and> CalcWeight (params_default\<lparr>reg_alpha := Finite 3\<rparr>) (Finite (- 10)) (Finite 5)
       = Finite (7 / 6)
   \<and> CalcWeight (params_default\<lparr>max_delta_step := Finite (1 / 2)\<rparr>) (Finite (- 10)) (Finite 5)
       = Finite (1 / 2)
   \<and> CalcWeight params_default (Finite (- 10)) (Finite (1 / 2)) = Finite 0
   \<and> ThresholdL1 (Finite (- 10)) (Finite 3) = Finite (- 7)"
proof -
  have a: "CalcWeight (params_default\<lparr>reg_alpha := Finite 3\<rparr>) (Finite (- 10)) (Finite 5)
      = Finite (7 / 6)"
    using CalcWeight_cases [of "params_default\<lparr>reg_alpha := Finite 3\<rparr>" "Finite (- 10)"
        "Finite 5" "Finite (- 10)" "Finite 3"]
    by (simp add: params_default_def ThresholdL1_def fgt_def fsub_def fne_def fle_def feq_def)
  have b: "CalcWeight (params_default\<lparr>max_delta_step := Finite (1 / 2)\<rparr>) (Finite (- 10))
      (Finite 5) = Finite (1 / 2)"
    using CalcWeight_cases [of "params_default\<lparr>max_delta_step := Finite (1 / 2)\<rparr>"
        "Finite (- 10)" "Finite 5" "Finite (- 10)" "Finite 3"]
    by (simp add: params_default_def ThresholdL1_def fgt_def fsub_def fne_def fle_def feq_def
        clip_into_def fmin_def fmax_def)
  have c: "CalcWeight params_default (Finite (- 10)) (Finite (1 / 2)) = Finite 0"
    using CalcWeight_cases [of params_default "Finite (- 10)" "Finite (1 / 2)"
        "Finite (- 10)" "Finite 3"]
    by (simp add: params_default_def)
  have d: "ThresholdL1 (Finite (- 10)) (Finite 3) = Finite (- 7)"
    using CalcWeight_cases [of params_default "Finite (- 10)" "Finite 5"
        "Finite (- 10)" "Finite 3"]
    by (simp add: fgt_def)
  from a b c d show ?thesis
    by simp
qed

text \<open>
  With \<^verbatim>\<open>reg_alpha\<close> 0 and a \<^verbatim>\<open>sum_grad\<close> that is not a number, \<^verbatim>\<open>CalcWeight\<close> returns
  not-a-number, while the soft threshold of \<^verbatim>\<open>sum_grad\<close> is 0 and so is the quotient.
\<close>

theorem CalcWeight_cases_counterexample:
  "\<not> flt (Finite 5) (min_child_weight params_default)
   \<and> \<not> fle (Finite 5) (Finite 0)
   \<and> feq (max_delta_step params_default) (Finite 0)
   \<and> CalcWeight params_default NaN (Finite 5) = NaN
   \<and> fdiv (fneg (ThresholdL1 NaN (reg_alpha params_default)))
          (fadd (Finite 5) (reg_lambda params_default)) = Finite 0"
  by (simp add: params_default_def CalcWeight_def ThresholdL1_def fgt_def fne_def fle_def feq_def)

text \<open>
  C3. \<^verbatim>\<open>CalcGain\<close> returns 0 when \<^verbatim>\<open>sum_hess < min_child_weight\<close>. Otherwise, when
  \<^verbatim>\<open>max_delta_step\<close> is 0, it returns the square of the numerator over
  \<^verbatim>\<open>sum_hess + reg_lambda\<close>, where the numerator is \<^verbatim>\<open>sum_grad\<close> itself when
  \<^verbatim>\<open>reg_alpha\<close> is 0 and the soft threshold of \<^verbatim>\<open>sum_grad\<close> at \<^verbatim>\<open>reg_alpha\<close> otherwise.
  Otherwise it returns \<^verbatim>\<open>CalcGainGivenWeight(sum_grad, sum_hess, w)\<close> for the weight \<open>w\<close> of
  \<^verbatim>\<open>CalcWeight\<close>, plus \<^verbatim>\<open>reg_alpha * |w|\<close> when \<^verbatim>\<open>reg_alpha\<close> is not 0. Whenever
  \<^verbatim>\<open>sum_grad\<close> is a number or \<^verbatim>\<open>reg_alpha\<close> is not 0, the numerator is the soft threshold
  of \<^verbatim>\<open>sum_grad\<close> at \<^verbatim>\<open>reg_alpha\<close>. \<^verbatim>\<open>CalcGainGivenWeight(g, h, w)\<close> is
  \<^verbatim>\<open>-(2*g*w + (h + reg_lambda)*w^2)\<close>. No bound on the parameters is needed.
\<close>

theorem CalcGain_cases:
  "CalcGain p grad hess =
     (if flt hess (min_child_weight p) then Finite 0
      else if feq (max_delta_step p) (Finite 0)
      then fdiv (Sqr (if feq (reg_alpha p) (Finite 0) then grad
                      else ThresholdL1 grad (reg_alpha p)))
                (fadd hess (reg_lambda p))
      else
        let w = CalcWeight p grad hess
        in if fne (reg_alpha p) (Finite 0)
           then fadd (CalcGainGivenWeight p grad hess w) (fmul (reg_alpha p) (fabs w))
           else CalcGainGivenWeight p grad hess w)
   \<and> (\<not> isnan grad \<or> fne (reg_alpha p) (Finite 0) \<longrightarrow>
        CalcGain p grad hess =
          (if flt hess (min_child_weight p) then Finite 0
           else if feq (max_delta_step p) (Finite 0)
           then fdiv (Sqr (ThresholdL1 grad (reg_alpha p))) (fadd hess (reg_lambda p))
           else
             let w = CalcWeight p grad hess
             in if fne (reg_alpha p) (Finite 0)
                then fadd (CalcGainGivenWeight p grad hess w) (fmul (reg_alpha p) (fabs w))
                else CalcGainGivenWeight p grad hess w))
   \<and> CalcGainGivenWeight p g h w =
        fneg (fadd (fmul (fmul (Finite 2) g) w) (fmul (fadd h (reg_lambda p)) (fmul w w)))"
proof (intro conjI impI)
  show u: "CalcGain p grad hess =
     (if flt hess (min_child_weight p) then Finite 0
      else if feq (max_delta_step p) (Finite 0)
      then fdiv (Sqr (if feq (reg_alpha p) (Finite 0) then grad
                      else ThresholdL1 grad (reg_alpha p)))
                (fadd hess (reg_lambda p))
      else
        let w = CalcWeight p grad hess
        in if fne (reg_alpha p) (Finite 0)
           then fadd (CalcGainGivenWeight p grad hess w) (fmul (reg_alpha p) (fabs w))
           else CalcGainGivenWeight p grad hess w)"
    by (simp add: CalcGain_def Let_def fne_def)
  show "CalcGainGivenWeight p g h w =
        fneg (fadd (fmul (fmul (Finite 2) g) w) (fmul (fadd h (reg_lambda p)) (fmul w w)))"
    by (simp add: CalcGainGivenWeight_def Sqr_def)
  assume "\<not> isnan grad \<or> fne (reg_alpha p) (Finite 0)"
  then have "(if feq (reg_alpha p) (Finite 0) then grad else ThresholdL1 grad (reg_alpha p))
      = ThresholdL1 grad (reg_alpha p)"
    using ThresholdL1_zero [of grad] by (auto simp: fne_def)
  with u show "CalcGain p grad hess =
          (if flt hess (min_child_weight p) then Finite 0
           else if feq (max_delta_step p) (Finite 0)
           then fdiv (Sqr (ThresholdL1 grad (reg_alpha p))) (fadd hess (reg_lambda p))
           else
             let w = CalcWeight p grad hess
             in if fne (reg_alpha p) (Finite 0)
                then fadd (CalcGainGivenWeight p grad hess w) (fmul (reg_alpha p) (fabs w))
                else CalcGainGivenWeight p grad hess w)"
    by simp
qed

theorem CalcGain_cases_witness:
  "\<not> isnan (Finite (- 10))
   \<and> CalcGain (params_default\<lparr>reg_alpha := Finite 3\<rparr>) (Finite (- 10)) (Finite 5)
       = Finite (49 / 6)
   \<and> CalcGain params_default (Finite (- 10)) (Finite (1 / 2)) = Finite 0
   \<and> CalcGainGivenWeight params_default (Finite (- 10)) (Finite 5) (Finite (1 / 2))
       = Finite (17 / 2)"
proof -
  have a: "CalcGain (params_default\<lparr>reg_alpha := Finite 3\<rparr>) (Finite (- 10)) (Finite 5)
      = Finite (49 / 6)"
    using CalcGain_cases [of "params_default\<lparr>reg_alpha := Finite 3\<rparr>" "Finite (- 10)"
        "Finite 5" "Finite (- 10)" "Finite 5" "Finite (1 / 2)"]
    by (simp add: params_default_def ThresholdL1_def fgt_def fsub_def fne_def feq_def Sqr_def)
  have b: "CalcGain params_default (Finite (- 10)) (Finite (1 / 2)) = Finite 0"
    using CalcGain_cases [of params_default "Finite (- 10)" "Finite (1 / 2)"
        "Finite (- 10)" "Finite 5" "Finite (1 / 2)"]
    by (simp add: params_default_def)
  have c: "CalcGainGivenWeight params_default (Finite (- 10)) (Finite 5) (Finite (1 / 2))
       = Finite (17 / 2)"
    using CalcGain_cases [of params_default "Finite (- 10)" "Finite 5"
        "Finite (- 10)" "Finite 5" "Finite (1 / 2)"]
    by (simp add: params_default_def)
  from a b c show ?thesis
    by simp
qed

text \<open>
  With the default parameters and a \<^verbatim>\<open>sum_grad\<close> that is not a number, \<^verbatim>\<open>CalcGain\<close>
  returns not-a-number, while the square of the soft threshold over
  \<^verbatim>\<open>sum_hess + reg_lambda\<close> is 0.
\<close>

theorem CalcGain_cases_counterexample:
  "fge (reg_lambda params_default) (Finite 0)
   \<and> fge (reg_alpha params_default) (Finite 0)
   \<and> fge (min_child_weight params_default) (Finite 0)
   \<and> \<not> flt (Finite 5) (min_child_weight params_default)
   \<and> feq (max_delta_step params_default) (Finite 0)
   \<and> CalcGain params_default NaN (Finite 5) = NaN
   \<and> fdiv (Sqr (ThresholdL1 NaN (reg_alpha params_default)))
          (fadd (Finite 5) (reg_lambda params_default)) = Finite 0"
  by (simp add: params_default_def CalcGain_def ThresholdL1_def Sqr_def fgt_def fge_def fle_def
      feq_def)

subsection \<open>The divisor\<close>

text \<open>
  Behind the guard of \<^verbatim>\<open>CalcWeight\<close> the divisor \<^verbatim>\<open>sum_hess + reg_lambda\<close> is positive
  for a \<^verbatim>\<open>reg_lambda\<close> that is not negative. Behind the guard of \<^verbatim>\<open>CalcGain\<close> it is
  positive when \<^verbatim>\<open>sum_hess\<close> is positive, which that guard does not check.
\<close>

lemma CalcWeight_divisor_positive:
  assumes "\<not> (flt hess (min_child_weight p) \<or> fle hess (Finite 0))" "\<not> isnan hess"
    and "fge (reg_lambda p) (Finite 0)"
  shows "fgt (fadd hess (reg_lambda p)) (Finite 0)"
  using assms
  by (cases hess; cases "reg_lambda p") (auto simp: fge_def fle_def feq_def fgt_def)

lemma CalcGain_divisor_positive:
  assumes "\<not> flt hess (min_child_weight p)" "fgt hess (Finite 0)"
    and "fge (reg_lambda p) (Finite 0)"
  shows "fgt (fadd hess (reg_lambda p)) (Finite 0)"
  using assms
  by (cases hess; cases "reg_lambda p") (auto simp: fge_def fle_def feq_def fgt_def)

text \<open>
  C7. With \<^verbatim>\<open>min_child_weight\<close>, \<^verbatim>\<open>reg_lambda\<close>, \<^verbatim>\<open>reg_alpha\<close> and \<^verbatim>\<open>max_delta_step\<close> all 0
  and a \<^verbatim>\<open>sum_hess\<close> of 0, the statistics pass the guard of \<^verbatim>\<open>CalcGain\<close>, the divisor
  \<^verbatim>\<open>sum_hess + reg_lambda\<close> is 0, and \<^verbatim>\<open>CalcGain\<close> returns not-a-number for a
  \<^verbatim>\<open>sum_grad\<close> of 0 and plus infinity for a \<^verbatim>\<open>sum_grad\<close> of 1. \<^verbatim>\<open>CalcWeight\<close> returns 0 on
  the same input, by its additional test \<^verbatim>\<open>sum_hess <= 0\<close>.
\<close>

theorem CalcGain_zero_divisor:
  "fge (reg_lambda params_zero) (Finite 0)
   \<and> fge (Finite 0) (min_child_weight params_zero)
   \<and> \<not> flt (Finite 0) (min_child_weight params_zero)
   \<and> fadd (Finite 0) (reg_lambda params_zero) = Finite 0
   \<and> CalcGain params_zero (Finite 0) (Finite 0) = NaN
   \<and> CalcGain params_zero (Finite 1) (Finite 0) = PosInf
   \<and> CalcWeight params_zero (Finite 1) (Finite 0) = Finite 0"
  by (simp add: params_zero_def CalcGain_def CalcWeight_def Sqr_def fge_def fle_def feq_def)

section \<open>Narrowing to float\<close>




lemma isnan_to_float [simp]: "isnan (to_float d) = isnan d"
  by (cases d) (simp_all add: to_float_def Let_def)

lemma to_float_NaN [simp]: "to_float NaN = NaN"
  by (simp add: to_float_def)







section \<open>The monotonic value constraint\<close>

























text \<open>
  C10. \<^verbatim>\<open>SetChild\<close> reads the direction of the feature with the checked lookup
  \<^verbatim>\<open>monotone_constraints.at(split_index)\<close>: it ends in the failure of that lookup exactly
  when \<^verbatim>\<open>split_index\<close> is at least the size of \<^verbatim>\<open>monotone_constraints\<close>, whatever the
  other arguments are, and then it has written neither child.
\<close>

theorem SetChild_out_of_range:
  "(fst (SetChild this param split_index left right cleft cright) = Inl out_of_range)
     = (length (monotone_constraints param) \<le> unat split_index)
   \<and> (length (monotone_constraints param) \<le> unat split_index \<longrightarrow>
        SetChild this param split_index left right cleft cright
          = (Inl out_of_range, cleft, cright))"
  by (auto simp: SetChild_def vector_at_def CHECK_def Let_def split: if_splits)

theorem SetChild_out_of_range_witness:
  "length (monotone_constraints params_monotone) \<le> unat (3 :: 32 word)
   \<and> SetChild ValueConstraint_init params_monotone 3
        (stats (Finite (- 12)) (Finite 5)) (stats (Finite (- 24)) (Finite 5)) stale stale
       = (Inl out_of_range, stale, stale)"
proof -
  have "length (monotone_constraints params_monotone) \<le> unat (3 :: 32 word)"
    by (simp add: params_monotone_def)
  then show ?thesis
    using SetChild_out_of_range [of ValueConstraint_init params_monotone 3
        "stats (Finite (- 12)) (Finite 5)" "stats (Finite (- 24)) (Finite 5)" stale stale]
    by simp
qed

text \<open>
  C8. A default-constructed value constraint has the lower bound \<open>-DBL_MAX\<close> and the
  upper bound \<open>DBL_MAX\<close>, where \<open>DBL_MAX = 2^1024 - 2^971\<close> is the largest finite double:
  both bounds are finite.
\<close>

theorem ValueConstraint_init_bounds:
  "lower_bound ValueConstraint_init = Finite (- DBL_MAX)
   \<and> upper_bound ValueConstraint_init = Finite DBL_MAX
   \<and> DBL_MAX = 2 ^ 1024 - 2 ^ 971"
  by (simp add: ValueConstraint_init_def DBL_MAX_def)

text \<open>The bounds of the constructor are not the infinities.\<close>

theorem ValueConstraint_init_bounds_counterexample:
  "lower_bound ValueConstraint_init \<noteq> NegInf \<and> upper_bound ValueConstraint_init \<noteq> PosInf"
  by (simp add: ValueConstraint_init_def)

end
